theory Spec2Isabelle
  imports Complex_Main
begin

section \<open>Python values, JSON documents and HTTP responses\<close>

text \<open>
  The four handlers of \<^verbatim>\<open>misago/healthcheck/views.py\<close> are embedded as functions from a
  request, the collaborators the module reaches through its globals (\<^verbatim>\<open>connection\<close>,
  \<^verbatim>\<open>cache\<close>, \<^verbatim>\<open>psutil\<close>, \<^verbatim>\<open>settings\<close>, the redis connection) and a world state, to a
  response and the world state afterwards. A Python exception is the left injection of a
  sum, carrying \<^verbatim>\<open>str(e)\<close>; every \<^verbatim>\<open>try\<close>/\<^verbatim>\<open>except\<close> of the source is a case
  distinction on it.

  Floats are represented by the rational number they denote, which is exact for the
  comparisons \<^verbatim>\<open>percent < 90\<close>; NaN and infinities are left out.
\<close>

datatype pyval = PNone | PBool bool | PInt int | PStr string

datatype json =
    JNull
  | JBool bool
  | JInt int
  | JFloat rat
  | JStr string
  | JObj "(string \<times> json) list"

fun to_json :: "pyval \<Rightarrow> json" where
  "to_json PNone = JNull"
| "to_json (PBool b) = JBool b"
| "to_json (PInt n) = JInt n"
| "to_json (PStr s) = JStr s"

record response =
  status_code :: nat
  content :: "(string \<times> json) list"

text \<open>\<^verbatim>\<open>JsonResponse(data, status=...)\<close>; the status defaults to 200.\<close>

definition JsonResponse :: "(string \<times> json) list \<Rightarrow> nat option \<Rightarrow> response" where
  "JsonResponse data status =
     \<lparr>status_code = (case status of None \<Rightarrow> 200 | Some c \<Rightarrow> c), content = data\<rparr>"

text \<open>Reading a member of a JSON object: \<open>None\<close> when the key is absent.\<close>

definition json_member :: "json \<Rightarrow> string \<Rightarrow> json option" where
  "json_member j k = (case j of JObj kvs \<Rightarrow> map_of kvs k | _ \<Rightarrow> None)"

record request =
  META :: "string \<rightharpoonup> string"

text \<open>\<^verbatim>\<open>d.get(k, default)\<close> on a Python dict.\<close>

definition dict_get :: "('k \<rightharpoonup> 'v) \<Rightarrow> 'k \<Rightarrow> 'v \<Rightarrow> 'v" where
  "dict_get m k dflt = (case m k of None \<Rightarrow> dflt | Some v \<Rightarrow> v)"

text \<open>\<^verbatim>\<open>xs[i]\<close> on a tuple: out of range raises IndexError.\<close>

definition py_index :: "'a list \<Rightarrow> nat \<Rightarrow> string + 'a" where
  "py_index xs i = (if i < length xs then Inr (xs ! i) else Inl ''tuple index out of range'')"

text \<open>
  \<^verbatim>\<open>round(x, ndigits)\<close> on a float: the decimal with \<open>ndigits\<close> places nearest to \<open>x\<close>,
  ties to the even neighbour. The result stands for the float nearest to that decimal.
\<close>

definition py_round :: "rat \<Rightarrow> nat \<Rightarrow> rat" where
  "py_round x ndigits =
     (let y = x * 10 ^ ndigits;
          f = \<lfloor>y\<rfloor>;
          r = y - of_int f;
          n = (if r < 1 / 2 then f else if 1 / 2 < r then f + 1
               else if even f then f else f + 1)
      in of_int n / 10 ^ ndigits)"

section \<open>Collaborators and the world state\<close>

text \<open>What \<^verbatim>\<open>psutil.virtual_memory()\<close> and \<^verbatim>\<open>psutil.disk_usage(path)\<close> return
  (the attributes the handlers read).\<close>

record svmem =
  mem_percent :: rat
  mem_available :: int

record sdiskusage =
  disk_percent :: rat
  disk_free :: int

text \<open>Every call a handler makes on a collaborator is recorded, in order.\<close>

datatype call =
    ConnectionCursor
  | CursorExecute string "string list"
  | CursorFetchone
  | CacheSet string pyval int
  | CacheGet string
  | DiskUsage string
  | VirtualMemory
  | CpuPercent rat
  | GetRedisConnection string
  | RedisInfo

record 's world =
  cache_state :: 's
  calls :: "call list"

definition record_call :: "call \<Rightarrow> 's world \<Rightarrow> 's world" where
  "record_call c w = w\<lparr>calls := calls w @ [c]\<rparr>"

text \<open>
  The collaborators, as a test double would supply them. The cache backend is a
  state machine over \<open>'s\<close>: \<^verbatim>\<open>cache.set(key, value, timeout)\<close> returns the new state or
  raises, \<^verbatim>\<open>cache.get(key)\<close> returns a value (\<^verbatim>\<open>None\<close> for a missing key) or raises.
  The database answers \<^verbatim>\<open>fetchone()\<close> according to the statement executed; leaving the
  \<^verbatim>\<open>with\<close> block of a cursor does not raise. The redis \<^verbatim>\<open>info()\<close> payload is the
  map of its integer counters; \<open>get_redis_connection\<close> stands for the import of
  \<^verbatim>\<open>django_redis\<close> together with the call that obtains the connection. The
  \<^verbatim>\<open>@action\<close> decorator only annotates the handlers and is left out.
\<close>

record 's deps =
  PSUTIL_AVAILABLE :: bool
  MISAGO_VERSION :: "string option"
  DATABASE_NAME :: string
  connection_cursor :: "string + unit"
  cursor_execute :: "string \<Rightarrow> string list \<Rightarrow> string + unit"
  cursor_fetchone :: "string \<Rightarrow> string + pyval list option"
  cache_set :: "string \<Rightarrow> pyval \<Rightarrow> int \<Rightarrow> 's \<Rightarrow> string + 's"
  cache_get :: "string \<Rightarrow> 's \<Rightarrow> string + pyval"
  psutil_disk_usage :: "string \<Rightarrow> string + sdiskusage"
  psutil_virtual_memory :: "string + svmem"
  psutil_cpu_percent :: "rat \<Rightarrow> string + rat"
  get_redis_connection :: "string \<Rightarrow> string + unit"
  redis_info :: "string + (string \<rightharpoonup> int)"

text \<open>\<^verbatim>\<open>request.META.get('HTTP_X_REQUEST_ID', '')\<close>\<close>

definition request_id :: "request \<Rightarrow> string" where
  "request_id request = dict_get (META request) ''HTTP_X_REQUEST_ID'' ''''"

section \<open>healthcheck\<close>

text \<open>Lines 28-35: the database check.\<close>

definition db_status :: "'s deps \<Rightarrow> 's world \<Rightarrow> string \<times> 's world" where
  "db_status d w =
     (let w1 = record_call ConnectionCursor w in
      case connection_cursor d of
        Inl e \<Rightarrow> (''error: '' @ e, w1)
      | Inr _ \<Rightarrow>
          (let w2 = record_call (CursorExecute ''SELECT 1'' []) w1 in
           case cursor_execute d ''SELECT 1'' [] of
             Inl e \<Rightarrow> (''error: '' @ e, w2)
           | Inr _ \<Rightarrow>
               (let w3 = record_call CursorFetchone w2 in
                case cursor_fetchone d ''SELECT 1'' of
                  Inl e \<Rightarrow> (''error: '' @ e, w3)
                | Inr _ \<Rightarrow> (''ok'', w3))))"

text \<open>Lines 37-43: the cache check.\<close>

definition redis_status :: "'s deps \<Rightarrow> 's world \<Rightarrow> string \<times> 's world" where
  "redis_status d w =
     (let w1 = record_call (CacheSet ''health_check'' (PStr ''ok'') 10) w in
      case cache_set d ''health_check'' (PStr ''ok'') 10 (cache_state w1) of
        Inl e \<Rightarrow> (''error: '' @ e, w1)
      | Inr s \<Rightarrow>
          (let w2 = record_call (CacheGet ''health_check'') (w1\<lparr>cache_state := s\<rparr>) in
           case cache_get d ''health_check'' (cache_state w2) of
             Inl e \<Rightarrow> (''error: '' @ e, w2)
           | Inr result \<Rightarrow> (if result = PStr ''ok'' then ''ok'' else ''error'', w2)))"

text \<open>Lines 45-53: the disk check. The second component is the local \<^verbatim>\<open>disk_usage\<close>,
  \<open>None\<close> when it was never assigned.\<close>

definition disk_status :: "'s deps \<Rightarrow> 's world \<Rightarrow> string \<times> sdiskusage option \<times> 's world" where
  "disk_status d w =
     (if PSUTIL_AVAILABLE d then
        (let w1 = record_call (DiskUsage ''/'') w in
         case psutil_disk_usage d ''/'' of
           Inl e \<Rightarrow> (''error: '' @ e, None, w1)
         | Inr disk_usage \<Rightarrow>
             (if disk_percent disk_usage < 90 then ''ok'' else ''warning'', Some disk_usage, w1))
      else (''unknown (psutil not available)'', None, w))"

text \<open>Lines 55-63: the memory check, with the local \<^verbatim>\<open>memory\<close>.\<close>

definition memory_status :: "'s deps \<Rightarrow> 's world \<Rightarrow> string \<times> svmem option \<times> 's world" where
  "memory_status d w =
     (if PSUTIL_AVAILABLE d then
        (let w1 = record_call VirtualMemory w in
         case psutil_virtual_memory d of
           Inl e \<Rightarrow> (''error: '' @ e, None, w1)
         | Inr memory \<Rightarrow>
             (if mem_percent memory < 90 then ''ok'' else ''warning'', Some memory, w1))
      else (''unknown (psutil not available)'', None, w))"

text \<open>Lines 65-70: the overall status.\<close>

definition overall_status :: "string \<Rightarrow> string \<Rightarrow> string \<Rightarrow> string \<Rightarrow> string" where
  "overall_status db redis disk memory =
     (if db \<noteq> ''ok'' \<or> redis \<noteq> ''ok'' then ''error''
      else if disk = ''warning'' \<or> memory = ''warning'' then ''warning''
      else ''ok'')"

text \<open>Lines 84-96: the \<^verbatim>\<open>system\<close> object. A local that was never assigned is reported
  as the integer 0.\<close>

definition system_metrics ::
  "'s deps \<Rightarrow> svmem option \<Rightarrow> sdiskusage option \<Rightarrow> 's world \<Rightarrow> (string \<times> json) list \<times> 's world"
where
  "system_metrics d memory disk_usage w =
     (if PSUTIL_AVAILABLE d then
        (let w1 = record_call (CpuPercent 1) w in
         case psutil_cpu_percent d 1 of
           Inl e \<Rightarrow> ([(''error'', JStr e)], w1)
         | Inr cpu \<Rightarrow>
             ([(''cpu_percent'', JFloat cpu),
               (''memory_percent'',
                  case memory of Some m \<Rightarrow> JFloat (mem_percent m) | None \<Rightarrow> JInt 0),
               (''disk_percent'',
                  case disk_usage of Some u \<Rightarrow> JFloat (disk_percent u) | None \<Rightarrow> JInt 0)],
              w1))
      else ([], w))"

text \<open>Lines 98-103: the HTTP status code.\<close>

definition http_status_code :: "string \<Rightarrow> nat" where
  "http_status_code overall =
     (if overall = ''error'' then 503 else if overall = ''warning'' then 200 else 200)"

definition healthcheck :: "request \<Rightarrow> 's deps \<Rightarrow> 's world \<Rightarrow> response \<times> 's world" where
  "healthcheck request d w =
     (let (db, w1) = db_status d w;
          (redis, w2) = redis_status d w1;
          (disk, disk_usage, w3) = disk_status d w2;
          (mem, memory, w4) = memory_status d w3;
          overall = overall_status db redis disk mem;
          (system, w5) = system_metrics d memory disk_usage w4;
          response_data =
            [(''status'', JStr overall),
             (''timestamp'', JStr (request_id request)),
             (''service'', JStr ''misago''),
             (''version'', JStr (case MISAGO_VERSION d of None \<Rightarrow> ''unknown'' | Some v \<Rightarrow> v)),
             (''checks'', JObj [(''database'', JStr db), (''redis'', JStr redis),
                                (''disk'', JStr disk), (''memory'', JStr mem)]),
             (''system'', JObj system)]
      in (JsonResponse response_data (Some (http_status_code overall)), w5))"

section \<open>readiness\<close>

definition readiness :: "request \<Rightarrow> 's deps \<Rightarrow> 's world \<Rightarrow> response \<times> 's world" where
  "readiness request d w =
     (let not_ready = (\<lambda>e. JsonResponse [(''status'', JStr ''not_ready''),
                                          (''error'', JStr e),
                                          (''timestamp'', JStr (request_id request))] (Some 503));
          w1 = record_call ConnectionCursor w in
      case connection_cursor d of
        Inl e \<Rightarrow> (not_ready e, w1)
      | Inr _ \<Rightarrow>
          (let w2 = record_call (CursorExecute ''SELECT 1'' []) w1 in
           case cursor_execute d ''SELECT 1'' [] of
             Inl e \<Rightarrow> (not_ready e, w2)
           | Inr _ \<Rightarrow>
               (let w3 = record_call (CacheGet ''ready_check'') w2 in
                case cache_get d ''ready_check'' (cache_state w3) of
                  Inl e \<Rightarrow> (not_ready e, w3)
                | Inr _ \<Rightarrow>
                    (JsonResponse [(''status'', JStr ''ready''),
                                   (''timestamp'', JStr (request_id request))] None, w3))))"

section \<open>liveness\<close>

definition liveness :: "request \<Rightarrow> 's deps \<Rightarrow> 's world \<Rightarrow> response \<times> 's world" where
  "liveness request d w =
     (JsonResponse [(''status'', JStr ''alive''),
                    (''timestamp'', JStr (request_id request))] None, w)"

section \<open>metrics\<close>

text \<open>The statement of lines 166-172, with its line breaks (\<open>CHR 10\<close>) and the quotes
  around \<^verbatim>\<open>active\<close> (\<open>CHR 39\<close>).\<close>

definition pg_stat_activity_query :: string where
  "pg_stat_activity_query =
     [CHR 10] @ ''                SELECT '' @
     [CHR 10] @ ''                    count(*) as total_connections,'' @
     [CHR 10] @ ''                    sum(case when state = '' @ [CHR 39] @ ''active'' @ [CHR 39] @
                '' then 1 else 0 end) as active_connections'' @
     [CHR 10] @ ''                FROM pg_stat_activity '' @
     [CHR 10] @ ''                WHERE datname = %s'' @
     [CHR 10] @ ''            ''"

text \<open>Lines 154-162: the locals \<^verbatim>\<open>cpu_percent\<close>, \<^verbatim>\<open>memory\<close> and \<^verbatim>\<open>disk\<close>
  (\<open>None\<close> is Python's \<^verbatim>\<open>None\<close>); a probe that raises leaves the \<^verbatim>\<open>try\<close> block.\<close>

definition sample_system ::
  "'s deps \<Rightarrow> 's world \<Rightarrow>
     (string + rat option \<times> svmem option \<times> sdiskusage option) \<times> 's world"
where
  "sample_system d w =
     (if PSUTIL_AVAILABLE d then
        (let w1 = record_call (CpuPercent (1 / 10)) w in
         case psutil_cpu_percent d (1 / 10) of
           Inl e \<Rightarrow> (Inl e, w1)
         | Inr cpu_percent \<Rightarrow>
             (let w2 = record_call VirtualMemory w1 in
              case psutil_virtual_memory d of
                Inl e \<Rightarrow> (Inl e, w2)
              | Inr memory \<Rightarrow>
                  (let w3 = record_call (DiskUsage ''/'') w2 in
                   case psutil_disk_usage d ''/'' of
                     Inl e \<Rightarrow> (Inl e, w3)
                   | Inr disk \<Rightarrow> (Inr (Some cpu_percent, Some memory, Some disk), w3))))
      else (Inr (None, None, None), w))"

text \<open>Lines 164-173: the row of connection counts; nothing here is caught.\<close>

definition fetch_db_stats :: "'s deps \<Rightarrow> 's world \<Rightarrow> (string + pyval list option) \<times> 's world" where
  "fetch_db_stats d w =
     (let w1 = record_call ConnectionCursor w in
      case connection_cursor d of
        Inl e \<Rightarrow> (Inl e, w1)
      | Inr _ \<Rightarrow>
          (let w2 = record_call (CursorExecute pg_stat_activity_query [DATABASE_NAME d]) w1 in
           case cursor_execute d pg_stat_activity_query [DATABASE_NAME d] of
             Inl e \<Rightarrow> (Inl e, w2)
           | Inr _ \<Rightarrow>
               (let w3 = record_call CursorFetchone w2 in
                case cursor_fetchone d pg_stat_activity_query of
                  Inl e \<Rightarrow> (Inl e, w3)
                | Inr db_stats \<Rightarrow> (Inr db_stats, w3))))"

text \<open>Lines 175-181: the redis info map; the bare \<^verbatim>\<open>except\<close> turns every failure into
  the empty map.\<close>

definition fetch_redis_info :: "'s deps \<Rightarrow> 's world \<Rightarrow> (string \<rightharpoonup> int) \<times> 's world" where
  "fetch_redis_info d w =
     (let w1 = record_call (GetRedisConnection ''default'') w in
      case get_redis_connection d ''default'' of
        Inl _ \<Rightarrow> (Map.empty, w1)
      | Inr _ \<Rightarrow>
          (let w2 = record_call RedisInfo w1 in
           case redis_info d of
             Inl _ \<Rightarrow> (Map.empty, w2)
           | Inr info \<Rightarrow> (info, w2)))"

text \<open>Lines 186-189: \<^verbatim>\<open>db_stats[i] if db_stats else 0\<close>; \<^verbatim>\<open>None\<close> and the empty tuple
  are false, a row too short raises IndexError.\<close>

definition database_counters :: "pyval list option \<Rightarrow> string + (string \<times> json) list" where
  "database_counters db_stats =
     (case db_stats of
        None \<Rightarrow> Inr [(''total_connections'', JInt 0), (''active_connections'', JInt 0)]
      | Some row \<Rightarrow>
          (if row = [] then
             Inr [(''total_connections'', JInt 0), (''active_connections'', JInt 0)]
           else
             (case py_index row 0 of
                Inl e \<Rightarrow> Inl e
              | Inr total_connections \<Rightarrow>
                  (case py_index row 1 of
                     Inl e \<Rightarrow> Inl e
                   | Inr active_connections \<Rightarrow>
                       Inr [(''total_connections'', to_json total_connections),
                            (''active_connections'', to_json active_connections)]))))"

text \<open>Lines 190-194.\<close>

definition redis_counters :: "(string \<rightharpoonup> int) \<Rightarrow> (string \<times> json) list" where
  "redis_counters info =
     [(''connected_clients'', JInt (dict_get info ''connected_clients'' 0)),
      (''used_memory_mb'',
         JFloat (py_round (of_int (dict_get info ''used_memory'' 0) / (1024 * 1024)) 2)),
      (''used_memory_peak_mb'',
         JFloat (py_round (of_int (dict_get info ''used_memory_peak'' 0) / (1024 * 1024)) 2))]"

text \<open>Lines 199-209: the \<^verbatim>\<open>system\<close> object of the metrics.\<close>

definition system_section ::
  "'s deps \<Rightarrow> rat option \<Rightarrow> svmem option \<Rightarrow> sdiskusage option \<Rightarrow> string + (string \<times> json) list"
where
  "system_section d cpu_percent memory disk =
     (if PSUTIL_AVAILABLE d \<and> cpu_percent \<noteq> None then
        (case (cpu_percent, memory, disk) of
           (Some c, Some m, Some k) \<Rightarrow>
             Inr [(''cpu_usage_percent'', JFloat c),
                  (''memory_usage_percent'', JFloat (mem_percent m)),
                  (''memory_available_gb'',
                     JFloat (py_round (of_int (mem_available m) / (1024 ^ 3)) 2)),
                  (''disk_usage_percent'', JFloat (disk_percent k)),
                  (''disk_free_gb'', JFloat (py_round (of_int (disk_free k) / (1024 ^ 3)) 2))]
         | _ \<Rightarrow> Inl ([CHR 39] @ ''NoneType'' @ [CHR 39] @ '' object has no attribute '' @
                     [CHR 39] @ ''percent'' @ [CHR 39]))
      else if \<not> PSUTIL_AVAILABLE d then Inr [(''error'', JStr ''psutil not available'')]
      else Inr [])"

text \<open>Lines 153-211: the body of the \<^verbatim>\<open>try\<close> block; \<open>Inl e\<close> is an exception that
  leaves it.\<close>

definition metrics_try :: "request \<Rightarrow> 's deps \<Rightarrow> 's world \<Rightarrow> (string + response) \<times> 's world" where
  "metrics_try request d w =
     (case sample_system d w of
        (Inl e, w1) \<Rightarrow> (Inl e, w1)
      | (Inr (cpu_percent, memory, disk), w1) \<Rightarrow>
          (case fetch_db_stats d w1 of
             (Inl e, w2) \<Rightarrow> (Inl e, w2)
           | (Inr db_stats, w2) \<Rightarrow>
               (let (info, w3) = fetch_redis_info d w2 in
                case database_counters db_stats of
                  Inl e \<Rightarrow> (Inl e, w3)
                | Inr database \<Rightarrow>
                    (case system_section d cpu_percent memory disk of
                       Inl e \<Rightarrow> (Inl e, w3)
                     | Inr system \<Rightarrow>
                         (Inr (JsonResponse
                                [(''metrics'', JObj [(''system'', JObj system),
                                                     (''database'', JObj database),
                                                     (''redis'', JObj (redis_counters info))]),
                                 (''timestamp'', JStr (request_id request))] None), w3)))))"

text \<open>Lines 213-217: the handler of that \<^verbatim>\<open>try\<close> block.\<close>

definition metrics :: "request \<Rightarrow> 's deps \<Rightarrow> 's world \<Rightarrow> response \<times> 's world" where
  "metrics request d w =
     (case metrics_try request d w of
        (Inl e, w') \<Rightarrow>
          (JsonResponse [(''error'', JStr e),
                         (''timestamp'', JStr (request_id request))] (Some 500), w')
      | (Inr r, w') \<Rightarrow> (r, w'))"

section \<open>Reading responses and call records\<close>

definition body :: "response \<Rightarrow> json" where
  "body r = JObj (content r)"

fun json_path :: "json \<Rightarrow> string list \<Rightarrow> json option" where
  "json_path j [] = Some j"
| "json_path j (k # ks) = (case json_member j k of None \<Rightarrow> None | Some j' \<Rightarrow> json_path j' ks)"

text \<open>The calls a handler added to the record of the world it started from.\<close>

definition new_calls :: "'s world \<Rightarrow> 's world \<Rightarrow> call list" where
  "new_calls w w' = drop (length (calls w)) (calls w')"

fun is_resource_call :: "call \<Rightarrow> bool" where
  "is_resource_call (DiskUsage _) = True"
| "is_resource_call VirtualMemory = True"
| "is_resource_call (CpuPercent _) = True"
| "is_resource_call _ = False"

fun is_cache_call :: "call \<Rightarrow> bool" where
  "is_cache_call (CacheSet _ _ _) = True"
| "is_cache_call (CacheGet _) = True"
| "is_cache_call _ = False"

fun is_cache_write :: "call \<Rightarrow> bool" where
  "is_cache_write (CacheSet _ _ _) = True"
| "is_cache_write _ = False"

text \<open>
  The status of a check, read off the string the handler reports for it: \<^verbatim>\<open>ok\<close>,
  \<^verbatim>\<open>warning\<close>, a string that starts with \<^verbatim>\<open>error\<close>, and anything else (the handler
  writes \<^verbatim>\<open>unknown (psutil not available)\<close>).
\<close>

datatype Status = StatusOk | StatusWarning | StatusError | StatusUnknown

definition status_of :: "string \<Rightarrow> Status" where
  "status_of s =
     (if s = ''ok'' then StatusOk
      else if s = ''warning'' then StatusWarning
      else if take 5 s = ''error'' then StatusError
      else StatusUnknown)"

definition check_status :: "response \<Rightarrow> string \<Rightarrow> Status" where
  "check_status r name =
     (case json_path (body r) [''checks'', name] of
        Some (JStr s) \<Rightarrow> status_of s
      | _ \<Rightarrow> StatusUnknown)"

definition check_names :: "string list" where
  "check_names = [''database'', ''redis'', ''disk'', ''memory'']"

text \<open>
  The aggregation policy in the specification's words (section 4.3): any error gives
  error, else any warning gives warning, else ok; unknown entries take no part.
\<close>

definition spec_aggregate :: "Status list \<Rightarrow> Status" where
  "spec_aggregate checks =
     (if StatusError \<in> set checks then StatusError
      else if StatusWarning \<in> set checks then StatusWarning
      else StatusOk)"

text \<open>How a status is written in the report.\<close>

fun status_text :: "Status \<Rightarrow> string" where
  "status_text StatusOk = ''ok''"
| "status_text StatusWarning = ''warning''"
| "status_text StatusError = ''error''"
| "status_text StatusUnknown = ''unknown''"

section \<open>Test doubles\<close>

text \<open>A cache that stores what it is given (a dictionary), and one that accepts every
  write and stores nothing, as Django's dummy backend does.\<close>

definition locmem_set ::
  "string \<Rightarrow> pyval \<Rightarrow> int \<Rightarrow> (string \<rightharpoonup> pyval) \<Rightarrow> string + (string \<rightharpoonup> pyval)" where
  "locmem_set k v t s = Inr (s(k \<mapsto> v))"

definition locmem_get :: "string \<Rightarrow> (string \<rightharpoonup> pyval) \<Rightarrow> string + pyval" where
  "locmem_get k s = Inr (case s k of None \<Rightarrow> PNone | Some v \<Rightarrow> v)"

definition dummy_set ::
  "string \<Rightarrow> pyval \<Rightarrow> int \<Rightarrow> (string \<rightharpoonup> pyval) \<Rightarrow> string + (string \<rightharpoonup> pyval)" where
  "dummy_set k v t s = Inr s"

definition dummy_get :: "string \<Rightarrow> (string \<rightharpoonup> pyval) \<Rightarrow> string + pyval" where
  "dummy_get k s = Inr PNone"

text \<open>Every collaborator answers; disk at 40 percent, memory at 50 percent.\<close>

definition healthy :: "(string \<rightharpoonup> pyval) deps" where
  "healthy =
     \<lparr>PSUTIL_AVAILABLE = True,
      MISAGO_VERSION = None,
      DATABASE_NAME = ''misago'',
      connection_cursor = Inr (),
      cursor_execute = (\<lambda>_ _. Inr ()),
      cursor_fetchone = (\<lambda>_. Inr (Some [PInt 3, PInt 1])),
      cache_set = locmem_set,
      cache_get = locmem_get,
      psutil_disk_usage = (\<lambda>_. Inr \<lparr>disk_percent = 40, disk_free = 8589934592\<rparr>),
      psutil_virtual_memory = Inr \<lparr>mem_percent = 50, mem_available = 4294967296\<rparr>,
      psutil_cpu_percent = (\<lambda>_. Inr 5),
      get_redis_connection = (\<lambda>_. Inr ()),
      redis_info = Inr [''connected_clients'' \<mapsto> 2, ''used_memory'' \<mapsto> 1048576,
                        ''used_memory_peak'' \<mapsto> 2097152]\<rparr>"

definition request_with_id :: request where
  "request_with_id = \<lparr>META = [''HTTP_X_REQUEST_ID'' \<mapsto> ''abc-123'']\<rparr>"

definition request_without_id :: request where
  "request_without_id = \<lparr>META = Map.empty\<rparr>"

definition fresh_world :: "(string \<rightharpoonup> pyval) world" where
  "fresh_world = \<lparr>cache_state = Map.empty, calls = []\<rparr>"

section \<open>The checks of the health endpoint, one by one\<close>

lemmas double_defs = healthy_def fresh_world_def request_with_id_def request_without_id_def
  locmem_set_def locmem_get_def dummy_set_def dummy_get_def

lemma fst_db_status:
  "fst (db_status d w) =
     (case connection_cursor d of
        Inl e \<Rightarrow> ''error: '' @ e
      | Inr _ \<Rightarrow>
          (case cursor_execute d ''SELECT 1'' [] of
             Inl e \<Rightarrow> ''error: '' @ e
           | Inr _ \<Rightarrow>
               (case cursor_fetchone d ''SELECT 1'' of
                  Inl e \<Rightarrow> ''error: '' @ e
                | Inr _ \<Rightarrow> ''ok'')))"
  by (simp add: db_status_def Let_def split: sum.splits)

lemma cache_state_db_status: "cache_state (snd (db_status d w)) = cache_state w"
  by (simp add: db_status_def record_call_def Let_def split: sum.splits)

lemma fst_redis_status:
  "fst (redis_status d w) =
     (case cache_set d ''health_check'' (PStr ''ok'') 10 (cache_state w) of
        Inl e \<Rightarrow> ''error: '' @ e
      | Inr s \<Rightarrow>
          (case cache_get d ''health_check'' s of
             Inl e \<Rightarrow> ''error: '' @ e
           | Inr result \<Rightarrow> if result = PStr ''ok'' then ''ok'' else ''error''))"
  by (simp add: redis_status_def record_call_def Let_def split: sum.splits)

lemma fst_disk_status:
  "fst (disk_status d w) =
     (if PSUTIL_AVAILABLE d then
        (case psutil_disk_usage d ''/'' of
           Inl e \<Rightarrow> ''error: '' @ e
         | Inr u \<Rightarrow> if disk_percent u < 90 then ''ok'' else ''warning'')
      else ''unknown (psutil not available)'')"
  by (simp add: disk_status_def Let_def split: sum.splits)

lemma fst_memory_status:
  "fst (memory_status d w) =
     (if PSUTIL_AVAILABLE d then
        (case psutil_virtual_memory d of
           Inl e \<Rightarrow> ''error: '' @ e
         | Inr m \<Rightarrow> if mem_percent m < 90 then ''ok'' else ''warning'')
      else ''unknown (psutil not available)'')"
  by (simp add: memory_status_def Let_def split: sum.splits)

lemma local_disk_usage:
  "fst (snd (disk_status d w)) =
     (if PSUTIL_AVAILABLE d then
        (case psutil_disk_usage d ''/'' of Inl e \<Rightarrow> None | Inr u \<Rightarrow> Some u)
      else None)"
  by (simp add: disk_status_def Let_def split: sum.splits)

lemma local_memory:
  "fst (snd (memory_status d w)) =
     (if PSUTIL_AVAILABLE d then
        (case psutil_virtual_memory d of Inl e \<Rightarrow> None | Inr m \<Rightarrow> Some m)
      else None)"
  by (simp add: memory_status_def Let_def split: sum.splits)

lemma fst_system_metrics:
  "fst (system_metrics d memory disk_usage w) =
     (if PSUTIL_AVAILABLE d then
        (case psutil_cpu_percent d 1 of
           Inl e \<Rightarrow> [(''error'', JStr e)]
         | Inr cpu \<Rightarrow>
             [(''cpu_percent'', JFloat cpu),
              (''memory_percent'',
                 case memory of Some m \<Rightarrow> JFloat (mem_percent m) | None \<Rightarrow> JInt 0),
              (''disk_percent'',
                 case disk_usage of Some u \<Rightarrow> JFloat (disk_percent u) | None \<Rightarrow> JInt 0)])
      else [])"
  by (simp add: system_metrics_def Let_def split: sum.splits)

lemma healthcheck_content:
  "content (fst (healthcheck request d w)) =
     (let db = fst (db_status d w);
          redis = fst (redis_status d (snd (db_status d w)));
          disk = fst (disk_status d w);
          mem = fst (memory_status d w)
      in [(''status'', JStr (overall_status db redis disk mem)),
          (''timestamp'', JStr (request_id request)),
          (''service'', JStr ''misago''),
          (''version'', JStr (case MISAGO_VERSION d of None \<Rightarrow> ''unknown'' | Some v \<Rightarrow> v)),
          (''checks'', JObj [(''database'', JStr db), (''redis'', JStr redis),
                             (''disk'', JStr disk), (''memory'', JStr mem)]),
          (''system'', JObj (fst (system_metrics d (fst (snd (memory_status d w)))
                                    (fst (snd (disk_status d w))) w)))])"
  by (simp add: healthcheck_def JsonResponse_def split_beta Let_def
      fst_disk_status fst_memory_status local_disk_usage local_memory fst_system_metrics
      split: sum.splits)

lemma healthcheck_status_code:
  "status_code (fst (healthcheck request d w)) =
     http_status_code (overall_status (fst (db_status d w))
        (fst (redis_status d (snd (db_status d w))))
        (fst (disk_status d w)) (fst (memory_status d w)))"
  by (simp add: healthcheck_def JsonResponse_def split_beta Let_def
      fst_disk_status fst_memory_status)

lemma healthcheck_overall:
  "json_path (body (fst (healthcheck request d w))) [''status''] =
     Some (JStr (overall_status (fst (db_status d w))
        (fst (redis_status d (snd (db_status d w))))
        (fst (disk_status d w)) (fst (memory_status d w))))"
  by (simp add: body_def json_member_def healthcheck_content Let_def)

lemma healthcheck_checks:
  "json_path (body (fst (healthcheck request d w))) [''checks'', ''database''] =
     Some (JStr (fst (db_status d w)))"
  "json_path (body (fst (healthcheck request d w))) [''checks'', ''redis''] =
     Some (JStr (fst (redis_status d (snd (db_status d w)))))"
  "json_path (body (fst (healthcheck request d w))) [''checks'', ''disk''] =
     Some (JStr (fst (disk_status d w)))"
  "json_path (body (fst (healthcheck request d w))) [''checks'', ''memory''] =
     Some (JStr (fst (memory_status d w)))"
  by (simp_all add: body_def json_member_def healthcheck_content Let_def)

lemma healthcheck_check_statuses:
  "map (check_status (fst (healthcheck request d w))) check_names =
     [status_of (fst (db_status d w)),
      status_of (fst (redis_status d (snd (db_status d w)))),
      status_of (fst (disk_status d w)),
      status_of (fst (memory_status d w))]"
  unfolding check_names_def check_status_def list.map healthcheck_checks by simp

lemma db_status_shape:
  "fst (db_status d w) = ''ok'' \<or> (\<exists>e. fst (db_status d w) = ''error: '' @ e)"
  by (simp add: fst_db_status split: sum.splits)

lemma redis_status_shape:
  "fst (redis_status d w) = ''ok'' \<or> fst (redis_status d w) = ''error''
     \<or> (\<exists>e. fst (redis_status d w) = ''error: '' @ e)"
  by (simp add: fst_redis_status split: sum.splits)

lemma disk_status_shape:
  "PSUTIL_AVAILABLE d \<and>
     (fst (disk_status d w) = ''ok'' \<or> fst (disk_status d w) = ''warning''
        \<or> (\<exists>e. fst (disk_status d w) = ''error: '' @ e))
   \<or> \<not> PSUTIL_AVAILABLE d \<and> fst (disk_status d w) = ''unknown (psutil not available)''"
  by (simp add: fst_disk_status split: sum.splits)

lemma memory_status_shape:
  "PSUTIL_AVAILABLE d \<and>
     (fst (memory_status d w) = ''ok'' \<or> fst (memory_status d w) = ''warning''
        \<or> (\<exists>e. fst (memory_status d w) = ''error: '' @ e))
   \<or> \<not> PSUTIL_AVAILABLE d \<and> fst (memory_status d w) = ''unknown (psutil not available)''"
  by (simp add: fst_memory_status split: sum.splits)

section \<open>Aggregation of the health endpoint\<close>

text \<open>
  C1. The claim: whenever one of the four checks reports an error, the overall status is
  error, also when the error is that of the disk or memory check. The handler compares
  only the database and cache statuses with \<^verbatim>\<open>ok\<close>, and the disk and memory statuses
  only with \<^verbatim>\<open>warning\<close>. With every collaborator answering except
  \<^verbatim>\<open>psutil.disk_usage\<close>, which raises, the disk check is reported as an error and the
  overall status is \<^verbatim>\<open>ok\<close> with HTTP 200.
\<close>

theorem healthcheck_disk_error_reported_ok:
  "check_status (fst (healthcheck request_with_id
       (healthy\<lparr>psutil_disk_usage := (\<lambda>_. Inl ''disk unreadable'')\<rparr>) fresh_world)) ''disk''
     = StatusError
   \<and> json_path (body (fst (healthcheck request_with_id
       (healthy\<lparr>psutil_disk_usage := (\<lambda>_. Inl ''disk unreadable'')\<rparr>) fresh_world))) [''status'']
     = Some (JStr ''ok'')
   \<and> status_code (fst (healthcheck request_with_id
       (healthy\<lparr>psutil_disk_usage := (\<lambda>_. Inl ''disk unreadable'')\<rparr>) fresh_world)) = 200"
  unfolding check_status_def healthcheck_checks healthcheck_overall healthcheck_status_code
  by (simp add: fst_db_status fst_redis_status cache_state_db_status fst_disk_status fst_memory_status
      status_of_def overall_status_def http_status_code_def double_defs)

text \<open>
  C2. When none of the four checks reports an error, the overall status is
  \<^verbatim>\<open>warning\<close> if some check is a warning and \<^verbatim>\<open>ok\<close> otherwise; it is the
  specification's aggregate of the checks that are not unknown. Without psutil the disk
  and memory checks are still listed, as unknown, and the overall status is \<^verbatim>\<open>ok\<close>.
\<close>

theorem healthcheck_no_error_aggregate:
  assumes "StatusError \<notin> set (map (check_status (fst (healthcheck request d w))) check_names)"
  shows "(let r = fst (healthcheck request d w);
              statuses = map (check_status r) check_names
          in json_path (body r) [''status''] =
               Some (JStr (if StatusWarning \<in> set statuses then ''warning'' else ''ok''))
           \<and> json_path (body r) [''status''] =
               Some (JStr (status_text (spec_aggregate
                             (filter (\<lambda>s. s \<noteq> StatusUnknown) statuses))))
           \<and> (\<not> PSUTIL_AVAILABLE d \<longrightarrow>
                json_path (body r) [''checks'', ''disk''] =
                  Some (JStr ''unknown (psutil not available)'')
                \<and> json_path (body r) [''checks'', ''memory''] =
                  Some (JStr ''unknown (psutil not available)'')
                \<and> check_status r ''disk'' = StatusUnknown
                \<and> check_status r ''memory'' = StatusUnknown
                \<and> json_path (body r) [''status''] = Some (JStr ''ok'')))"
proof -
  let ?db = "fst (db_status d w)"
  let ?redis = "fst (redis_status d (snd (db_status d w)))"
  let ?disk = "fst (disk_status d w)"
  let ?mem = "fst (memory_status d w)"
  from assms have ne:
    "status_of ?db \<noteq> StatusError" "status_of ?redis \<noteq> StatusError"
    "status_of ?disk \<noteq> StatusError" "status_of ?mem \<noteq> StatusError"
    by (auto simp: healthcheck_check_statuses)
  have db: "?db = ''ok''"
    using db_status_shape [of d w] ne(1) by (auto simp: status_of_def)
  have redis: "?redis = ''ok''"
    using redis_status_shape [of d "snd (db_status d w)"] ne(2) by (auto simp: status_of_def)
  have disk: "PSUTIL_AVAILABLE d \<and> (?disk = ''ok'' \<or> ?disk = ''warning'')
     \<or> \<not> PSUTIL_AVAILABLE d \<and> ?disk = ''unknown (psutil not available)''"
    using disk_status_shape [of d w] ne(3) by (auto simp: status_of_def)
  have mem: "PSUTIL_AVAILABLE d \<and> (?mem = ''ok'' \<or> ?mem = ''warning'')
     \<or> \<not> PSUTIL_AVAILABLE d \<and> ?mem = ''unknown (psutil not available)''"
    using memory_status_shape [of d w] ne(4) by (auto simp: status_of_def)
  show ?thesis
    unfolding Let_def healthcheck_check_statuses healthcheck_overall healthcheck_checks
      check_status_def
    using disk mem
    by (auto simp: db redis status_of_def overall_status_def spec_aggregate_def)
qed

theorem healthcheck_no_error_aggregate_witness:
  "StatusError \<notin> set (map (check_status (fst (healthcheck request_with_id
        (healthy\<lparr>PSUTIL_AVAILABLE := False\<rparr>) fresh_world))) check_names)
   \<and> \<not> PSUTIL_AVAILABLE (healthy\<lparr>PSUTIL_AVAILABLE := False\<rparr>)
   \<and> json_path (body (fst (healthcheck request_with_id
        (healthy\<lparr>PSUTIL_AVAILABLE := False\<rparr>) fresh_world))) [''status'']
       = Some (JStr ''ok'')
   \<and> json_path (body (fst (healthcheck request_with_id
        (healthy\<lparr>PSUTIL_AVAILABLE := False\<rparr>) fresh_world))) [''checks'', ''disk'']
       = Some (JStr ''unknown (psutil not available)'')
   \<and> StatusError \<notin> set (map (check_status (fst (healthcheck request_with_id
        (healthy\<lparr>psutil_virtual_memory := Inr \<lparr>mem_percent = 95, mem_available = 1024\<rparr>\<rparr>)
        fresh_world))) check_names)
   \<and> json_path (body (fst (healthcheck request_with_id
        (healthy\<lparr>psutil_virtual_memory := Inr \<lparr>mem_percent = 95, mem_available = 1024\<rparr>\<rparr>)
        fresh_world))) [''status'']
       = Some (JStr ''warning'')"
proof -
  let ?absent = "healthy\<lparr>PSUTIL_AVAILABLE := False\<rparr>"
  let ?full = "healthy\<lparr>psutil_virtual_memory := Inr \<lparr>mem_percent = 95, mem_available = 1024\<rparr>\<rparr>"
  have st1: "map (check_status (fst (healthcheck request_with_id ?absent fresh_world))) check_names
      = [StatusOk, StatusOk, StatusUnknown, StatusUnknown]"
    unfolding healthcheck_check_statuses
    by (simp add: fst_db_status fst_redis_status cache_state_db_status fst_disk_status
        fst_memory_status status_of_def double_defs)
  have st2: "map (check_status (fst (healthcheck request_with_id ?full fresh_world))) check_names
      = [StatusOk, StatusOk, StatusOk, StatusWarning]"
    unfolding healthcheck_check_statuses
    by (simp add: fst_db_status fst_redis_status cache_state_db_status fst_disk_status
        fst_memory_status status_of_def double_defs)
  have h1: "StatusError \<notin> set (map (check_status (fst (healthcheck request_with_id ?absent fresh_world))) check_names)"
    unfolding st1 by simp
  have h2: "StatusError \<notin> set (map (check_status (fst (healthcheck request_with_id ?full fresh_world))) check_names)"
    unfolding st2 by simp
  have p: "\<not> PSUTIL_AVAILABLE ?absent" by simp
  from healthcheck_no_error_aggregate [OF h1] p
  have c1: "json_path (body (fst (healthcheck request_with_id ?absent fresh_world))) [''status'']
       = Some (JStr ''ok'')"
    and c2: "json_path (body (fst (healthcheck request_with_id ?absent fresh_world))) [''checks'', ''disk'']
       = Some (JStr ''unknown (psutil not available)'')"
    unfolding Let_def by blast+
  from healthcheck_no_error_aggregate [OF h2]
  have c3: "json_path (body (fst (healthcheck request_with_id ?full fresh_world))) [''status'']
       = Some (JStr ''warning'')"
    unfolding Let_def st2 by simp
  show ?thesis using h1 h2 p c1 c2 c3 by blast
qed

section \<open>HTTP status of the health endpoint\<close>

text \<open>
  C3. The health endpoint answers 503 exactly when the overall status it reports is
  \<^verbatim>\<open>error\<close>, and 200 in every other case, a warning included.
\<close>

theorem healthcheck_http_status:
  "status_code (fst (healthcheck request d w)) =
     (if json_path (body (fst (healthcheck request d w))) [''status''] = Some (JStr ''error'')
      then 503 else 200)"
  unfolding healthcheck_overall healthcheck_status_code
  by (simp add: http_status_code_def)

theorem healthcheck_http_status_witness:
  "json_path (body (fst (healthcheck request_with_id
        (healthy\<lparr>psutil_virtual_memory := Inr \<lparr>mem_percent = 95, mem_available = 1024\<rparr>\<rparr>)
        fresh_world))) [''status''] = Some (JStr ''warning'')
   \<and> status_code (fst (healthcheck request_with_id
        (healthy\<lparr>psutil_virtual_memory := Inr \<lparr>mem_percent = 95, mem_available = 1024\<rparr>\<rparr>)
        fresh_world)) = 200
   \<and> json_path (body (fst (healthcheck request_with_id
        (healthy\<lparr>connection_cursor := Inl ''connection refused''\<rparr>)
        fresh_world))) [''status''] = Some (JStr ''error'')
   \<and> status_code (fst (healthcheck request_with_id
        (healthy\<lparr>connection_cursor := Inl ''connection refused''\<rparr>)
        fresh_world)) = 503"
proof -
  let ?warn = "healthy\<lparr>psutil_virtual_memory := Inr \<lparr>mem_percent = 95, mem_available = 1024\<rparr>\<rparr>"
  let ?down = "healthy\<lparr>connection_cursor := Inl ''connection refused''\<rparr>"
  have s1: "json_path (body (fst (healthcheck request_with_id ?warn fresh_world))) [''status'']
      = Some (JStr ''warning'')"
    unfolding healthcheck_overall
    by (simp add: fst_db_status fst_redis_status cache_state_db_status fst_disk_status
        fst_memory_status overall_status_def double_defs)
  have s2: "json_path (body (fst (healthcheck request_with_id ?down fresh_world))) [''status'']
      = Some (JStr ''error'')"
    unfolding healthcheck_overall
    by (simp add: fst_db_status fst_redis_status cache_state_db_status fst_disk_status
        fst_memory_status overall_status_def double_defs)
  have c1: "status_code (fst (healthcheck request_with_id ?warn fresh_world)) = 200"
    using healthcheck_http_status [of request_with_id ?warn fresh_world] unfolding s1 by simp
  have c2: "status_code (fst (healthcheck request_with_id ?down fresh_world)) = 503"
    using healthcheck_http_status [of request_with_id ?down fresh_world] unfolding s2 by simp
  show ?thesis using s1 s2 c1 c2 by blast
qed

section \<open>Liveness\<close>

text \<open>
  C4. The liveness endpoint answers 200 with status \<^verbatim>\<open>alive\<close> for every request and
  every behaviour of the collaborators; it makes no call on any of them and leaves the
  world as it was, so its response is the same whatever the database and cache do.
\<close>

theorem liveness_always_alive:
  "status_code (fst (liveness request d w)) = 200
   \<and> json_path (body (fst (liveness request d w))) [''status''] = Some (JStr ''alive'')
   \<and> snd (liveness request d w) = w
   \<and> new_calls w (snd (liveness request d w)) = []
   \<and> fst (liveness request d w) = fst (liveness request d' w')"
  by (simp add: liveness_def JsonResponse_def body_def json_member_def new_calls_def)

section \<open>The request correlation value\<close>

lemma request_id_cases:
  "request_id request =
     (case META request ''HTTP_X_REQUEST_ID'' of None \<Rightarrow> '''' | Some v \<Rightarrow> v)"
  by (simp add: request_id_def dict_get_def)

lemma readiness_timestamp:
  "json_path (body (fst (readiness request d w))) [''timestamp''] = Some (JStr (request_id request))"
  by (simp add: readiness_def JsonResponse_def body_def json_member_def Let_def split: sum.splits)

lemma metrics_timestamp:
  "json_path (body (fst (metrics request d w))) [''timestamp''] = Some (JStr (request_id request))"
  by (simp add: metrics_def metrics_try_def JsonResponse_def body_def json_member_def Let_def
      split: sum.splits prod.splits)

lemma healthcheck_timestamp:
  "json_path (body (fst (healthcheck request d w))) [''timestamp''] = Some (JStr (request_id request))"
  by (simp add: body_def json_member_def healthcheck_content Let_def)

lemma liveness_timestamp:
  "json_path (body (fst (liveness request d w))) [''timestamp''] = Some (JStr (request_id request))"
  by (simp add: liveness_def JsonResponse_def body_def json_member_def)

text \<open>
  C8. Each of the four handlers puts the value of the inbound \<^verbatim>\<open>X-Request-ID\<close> header,
  unchanged, into the \<^verbatim>\<open>timestamp\<close> field of its response, on every path; without the
  header the field is the empty string, and it is never missing.
\<close>

theorem request_id_echoed:
  "json_path (body (fst (healthcheck request d w))) [''timestamp''] =
     Some (JStr (case META request ''HTTP_X_REQUEST_ID'' of None \<Rightarrow> '''' | Some v \<Rightarrow> v))
   \<and> json_path (body (fst (readiness request d w))) [''timestamp''] =
     Some (JStr (case META request ''HTTP_X_REQUEST_ID'' of None \<Rightarrow> '''' | Some v \<Rightarrow> v))
   \<and> json_path (body (fst (liveness request d w))) [''timestamp''] =
     Some (JStr (case META request ''HTTP_X_REQUEST_ID'' of None \<Rightarrow> '''' | Some v \<Rightarrow> v))
   \<and> json_path (body (fst (metrics request d w))) [''timestamp''] =
     Some (JStr (case META request ''HTTP_X_REQUEST_ID'' of None \<Rightarrow> '''' | Some v \<Rightarrow> v))"
  unfolding healthcheck_timestamp readiness_timestamp liveness_timestamp metrics_timestamp
  by (simp add: request_id_cases)

theorem request_id_echoed_witness:
  "json_path (body (fst (metrics request_with_id healthy fresh_world))) [''timestamp''] =
     Some (JStr ''abc-123'')
   \<and> json_path (body (fst (readiness request_without_id healthy fresh_world))) [''timestamp''] =
     Some (JStr '''')"
  using request_id_echoed [of request_with_id healthy fresh_world]
    request_id_echoed [of request_without_id healthy fresh_world]
  by (simp add: request_with_id_def request_without_id_def)

section \<open>Readiness\<close>

lemma readiness_response:
  "fst (readiness request d w) =
     (case connection_cursor d of
        Inl e \<Rightarrow> JsonResponse [(''status'', JStr ''not_ready''), (''error'', JStr e),
                                (''timestamp'', JStr (request_id request))] (Some 503)
      | Inr _ \<Rightarrow>
          (case cursor_execute d ''SELECT 1'' [] of
             Inl e \<Rightarrow> JsonResponse [(''status'', JStr ''not_ready''), (''error'', JStr e),
                                     (''timestamp'', JStr (request_id request))] (Some 503)
           | Inr _ \<Rightarrow>
               (case cache_get d ''ready_check'' (cache_state w) of
                  Inl e \<Rightarrow> JsonResponse [(''status'', JStr ''not_ready''), (''error'', JStr e),
                                          (''timestamp'', JStr (request_id request))] (Some 503)
                | Inr _ \<Rightarrow> JsonResponse [(''status'', JStr ''ready''),
                                          (''timestamp'', JStr (request_id request))] None)))"
  by (simp add: readiness_def record_call_def Let_def split: sum.splits)

lemma readiness_new_calls:
  "new_calls w (snd (readiness request d w)) =
     ConnectionCursor #
       (case connection_cursor d of
          Inl _ \<Rightarrow> []
        | Inr _ \<Rightarrow>
            CursorExecute ''SELECT 1'' [] #
              (case cursor_execute d ''SELECT 1'' [] of
                 Inl _ \<Rightarrow> []
               | Inr _ \<Rightarrow> [CacheGet ''ready_check'']))"
  by (simp add: readiness_def record_call_def new_calls_def Let_def split: sum.splits)

lemma readiness_cache_state: "cache_state (snd (readiness request d w)) = cache_state w"
  by (simp add: readiness_def record_call_def Let_def split: sum.splits)

text \<open>
  C5, as stated, asks for a non-empty error field whenever the database probe raises.
  The field is \<^verbatim>\<open>str(e)\<close>: an exception raised without a message gives the empty
  string.
\<close>

theorem readiness_empty_error_text:
  "status_code (fst (readiness request_with_id
       (healthy\<lparr>connection_cursor := Inl ''''\<rparr>) fresh_world)) = 503
   \<and> json_path (body (fst (readiness request_with_id
       (healthy\<lparr>connection_cursor := Inl ''''\<rparr>) fresh_world))) [''error''] = Some (JStr '''')"
  unfolding readiness_response
  by (simp add: JsonResponse_def body_def json_member_def double_defs)

text \<open>
  C5, amended. The readiness endpoint samples no resource. When the cursor opens, the
  statement executes and the cache read returns, it answers 200 with status
  \<^verbatim>\<open>ready\<close> and no error field. When opening the cursor or executing the statement
  raises, it answers 503 with status \<^verbatim>\<open>not_ready\<close> and an error field that holds the
  text of the exception, non-empty whenever that text is.
\<close>

theorem readiness_dependencies_only:
  "\<not> list_ex is_resource_call (new_calls w (snd (readiness request d w)))
   \<and> (connection_cursor d = Inr () \<and> cursor_execute d ''SELECT 1'' [] = Inr ()
        \<and> (\<exists>v. cache_get d ''ready_check'' (cache_state w) = Inr v) \<longrightarrow>
      status_code (fst (readiness request d w)) = 200
      \<and> json_path (body (fst (readiness request d w))) [''status''] = Some (JStr ''ready'')
      \<and> json_path (body (fst (readiness request d w))) [''error''] = None)
   \<and> (connection_cursor d = Inl e
        \<or> connection_cursor d = Inr () \<and> cursor_execute d ''SELECT 1'' [] = Inl e \<longrightarrow>
      status_code (fst (readiness request d w)) = 503
      \<and> json_path (body (fst (readiness request d w))) [''status''] = Some (JStr ''not_ready'')
      \<and> json_path (body (fst (readiness request d w))) [''error''] = Some (JStr e)
      \<and> (e \<noteq> '''' \<longrightarrow> json_path (body (fst (readiness request d w))) [''error''] \<noteq> Some (JStr '''')))"
proof (intro conjI impI)
  show "\<not> list_ex is_resource_call (new_calls w (snd (readiness request d w)))"
    unfolding readiness_new_calls by (simp split: sum.splits)
next
  assume "connection_cursor d = Inr () \<and> cursor_execute d ''SELECT 1'' [] = Inr ()
        \<and> (\<exists>v. cache_get d ''ready_check'' (cache_state w) = Inr v)"
  then have r: "fst (readiness request d w) =
      JsonResponse [(''status'', JStr ''ready''), (''timestamp'', JStr (request_id request))] None"
    unfolding readiness_response by auto
  show "status_code (fst (readiness request d w)) = 200"
    and "json_path (body (fst (readiness request d w))) [''status''] = Some (JStr ''ready'')"
    and "json_path (body (fst (readiness request d w))) [''error''] = None"
    unfolding r by (simp_all add: JsonResponse_def body_def json_member_def)
next
  assume a: "connection_cursor d = Inl e
        \<or> connection_cursor d = Inr () \<and> cursor_execute d ''SELECT 1'' [] = Inl e"
  then have r: "fst (readiness request d w) =
      JsonResponse [(''status'', JStr ''not_ready''), (''error'', JStr e),
                    (''timestamp'', JStr (request_id request))] (Some 503)"
    unfolding readiness_response by auto
  show "status_code (fst (readiness request d w)) = 503"
    and "json_path (body (fst (readiness request d w))) [''status''] = Some (JStr ''not_ready'')"
    and e: "json_path (body (fst (readiness request d w))) [''error''] = Some (JStr e)"
    unfolding r by (simp_all add: JsonResponse_def body_def json_member_def)
  assume "e \<noteq> ''''"
  then show "json_path (body (fst (readiness request d w))) [''error''] \<noteq> Some (JStr '''')"
    unfolding e by simp
qed

theorem readiness_dependencies_only_witness:
  "connection_cursor healthy = Inr () \<and> cursor_execute healthy ''SELECT 1'' [] = Inr ()
   \<and> (\<exists>v. cache_get healthy ''ready_check'' (cache_state fresh_world) = Inr v)
   \<and> status_code (fst (readiness request_with_id healthy fresh_world)) = 200
   \<and> json_path (body (fst (readiness request_with_id healthy fresh_world))) [''status'']
       = Some (JStr ''ready'')
   \<and> connection_cursor (healthy\<lparr>connection_cursor := Inl ''connection refused''\<rparr>)
       = Inl ''connection refused''
   \<and> ''connection refused'' \<noteq> ''''
   \<and> status_code (fst (readiness request_with_id
        (healthy\<lparr>connection_cursor := Inl ''connection refused''\<rparr>) fresh_world)) = 503
   \<and> json_path (body (fst (readiness request_with_id
        (healthy\<lparr>connection_cursor := Inl ''connection refused''\<rparr>) fresh_world))) [''error'']
       = Some (JStr ''connection refused'')
   \<and> json_path (body (fst (readiness request_with_id
        (healthy\<lparr>connection_cursor := Inl ''connection refused''\<rparr>) fresh_world))) [''error'']
       \<noteq> Some (JStr '''')"
proof -
  let ?down = "healthy\<lparr>connection_cursor := Inl ''connection refused''\<rparr>"
  have h1: "connection_cursor healthy = Inr () \<and> cursor_execute healthy ''SELECT 1'' [] = Inr ()
     \<and> (\<exists>v. cache_get healthy ''ready_check'' (cache_state fresh_world) = Inr v)"
    by (simp add: double_defs)
  have h2: "connection_cursor ?down = Inl ''connection refused''" by simp
  have h3: "''connection refused'' \<noteq> ''''" by simp
  note up = readiness_dependencies_only [of fresh_world request_with_id healthy]
  note dn = readiness_dependencies_only
    [of fresh_world request_with_id ?down "''connection refused''"]
  show ?thesis using h1 h2 h3 up dn by blast
qed

lemma healthcheck_redis_check:
  "json_path (body (fst (healthcheck request d w))) [''checks'', ''redis''] =
     Some (JStr
       (case cache_set d ''health_check'' (PStr ''ok'') 10 (cache_state w) of
          Inl e \<Rightarrow> ''error: '' @ e
        | Inr s \<Rightarrow>
            (case cache_get d ''health_check'' s of
               Inl e \<Rightarrow> ''error: '' @ e
             | Inr result \<Rightarrow> if result = PStr ''ok'' then ''ok'' else ''error'')))"
  unfolding healthcheck_checks fst_redis_status cache_state_db_status by simp

text \<open>
  C10. The readiness endpoint never writes to the cache: the cache state is unchanged, and
  the only call it can make on the cache is the read of the key \<^verbatim>\<open>ready_check\<close>. When the
  cursor opens, the statement executes and that read returns, whatever value it returns,
  the answer is 200 with status \<^verbatim>\<open>ready\<close>. A cache that accepts every write, stores
  nothing and answers every read with \<^verbatim>\<open>None\<close> therefore passes readiness, while the
  health endpoint reports its cache check as an error and answers 503.
\<close>

theorem readiness_reads_without_writing:
  "cache_state (snd (readiness request d w)) = cache_state w
   \<and> \<not> list_ex is_cache_write (new_calls w (snd (readiness request d w)))
   \<and> (\<forall>c \<in> set (new_calls w (snd (readiness request d w))).
         is_cache_call c \<longrightarrow> c = CacheGet ''ready_check'')
   \<and> (connection_cursor d = Inr () \<and> cursor_execute d ''SELECT 1'' [] = Inr ()
        \<and> cache_get d ''ready_check'' (cache_state w) = Inr v \<longrightarrow>
      status_code (fst (readiness request d w)) = 200
      \<and> json_path (body (fst (readiness request d w))) [''status''] = Some (JStr ''ready''))
   \<and> (connection_cursor d = Inr () \<and> cursor_execute d ''SELECT 1'' [] = Inr ()
        \<and> (\<forall>k x t s. cache_set d k x t s = Inr s) \<and> (\<forall>k s. cache_get d k s = Inr PNone) \<longrightarrow>
      status_code (fst (readiness request d w)) = 200
      \<and> json_path (body (fst (readiness request d w))) [''status''] = Some (JStr ''ready'')
      \<and> json_path (body (fst (healthcheck request d w))) [''checks'', ''redis'']
          = Some (JStr ''error'')
      \<and> json_path (body (fst (healthcheck request d w))) [''status''] = Some (JStr ''error'')
      \<and> status_code (fst (healthcheck request d w)) = 503)"
proof (intro conjI impI)
  show "cache_state (snd (readiness request d w)) = cache_state w"
    by (rule readiness_cache_state)
  show "\<not> list_ex is_cache_write (new_calls w (snd (readiness request d w)))"
    unfolding readiness_new_calls by (simp split: sum.splits)
  show "\<forall>c \<in> set (new_calls w (snd (readiness request d w))).
         is_cache_call c \<longrightarrow> c = CacheGet ''ready_check''"
    unfolding readiness_new_calls by (auto split: sum.splits)
next
  assume "connection_cursor d = Inr () \<and> cursor_execute d ''SELECT 1'' [] = Inr ()
        \<and> cache_get d ''ready_check'' (cache_state w) = Inr v"
  then have r: "fst (readiness request d w) =
      JsonResponse [(''status'', JStr ''ready''), (''timestamp'', JStr (request_id request))] None"
    unfolding readiness_response by auto
  show "status_code (fst (readiness request d w)) = 200"
    and "json_path (body (fst (readiness request d w))) [''status''] = Some (JStr ''ready'')"
    unfolding r by (simp_all add: JsonResponse_def body_def json_member_def)
next
  assume a: "connection_cursor d = Inr () \<and> cursor_execute d ''SELECT 1'' [] = Inr ()
        \<and> (\<forall>k x t s. cache_set d k x t s = Inr s) \<and> (\<forall>k s. cache_get d k s = Inr PNone)"
  then have r: "fst (readiness request d w) =
      JsonResponse [(''status'', JStr ''ready''), (''timestamp'', JStr (request_id request))] None"
    unfolding readiness_response by auto
  show "status_code (fst (readiness request d w)) = 200"
    and "json_path (body (fst (readiness request d w))) [''status''] = Some (JStr ''ready'')"
    unfolding r by (simp_all add: JsonResponse_def body_def json_member_def)
  from a have red: "fst (redis_status d (snd (db_status d w))) = ''error''"
    unfolding fst_redis_status by simp
  show "json_path (body (fst (healthcheck request d w))) [''checks'', ''redis'']
          = Some (JStr ''error'')"
    unfolding healthcheck_checks red by simp
  show st: "json_path (body (fst (healthcheck request d w))) [''status''] = Some (JStr ''error'')"
    unfolding healthcheck_overall red by (simp add: overall_status_def)
  show "status_code (fst (healthcheck request d w)) = 503"
    unfolding healthcheck_status_code red by (simp add: overall_status_def http_status_code_def)
qed

theorem readiness_reads_without_writing_witness:
  "connection_cursor (healthy\<lparr>cache_set := dummy_set, cache_get := dummy_get\<rparr>) = Inr ()
   \<and> cursor_execute (healthy\<lparr>cache_set := dummy_set, cache_get := dummy_get\<rparr>) ''SELECT 1'' []
       = Inr ()
   \<and> cache_get (healthy\<lparr>cache_set := dummy_set, cache_get := dummy_get\<rparr>) ''ready_check''
       (cache_state fresh_world) = Inr PNone
   \<and> (\<forall>k x t s. cache_set (healthy\<lparr>cache_set := dummy_set, cache_get := dummy_get\<rparr>) k x t s
         = Inr s)
   \<and> (\<forall>k s. cache_get (healthy\<lparr>cache_set := dummy_set, cache_get := dummy_get\<rparr>) k s
         = Inr PNone)
   \<and> new_calls fresh_world (snd (readiness request_with_id
        (healthy\<lparr>cache_set := dummy_set, cache_get := dummy_get\<rparr>) fresh_world))
       = [ConnectionCursor, CursorExecute ''SELECT 1'' [], CacheGet ''ready_check'']
   \<and> is_cache_call (CacheGet ''ready_check'')
   \<and> status_code (fst (readiness request_with_id
        (healthy\<lparr>cache_set := dummy_set, cache_get := dummy_get\<rparr>) fresh_world)) = 200
   \<and> status_code (fst (healthcheck request_with_id
        (healthy\<lparr>cache_set := dummy_set, cache_get := dummy_get\<rparr>) fresh_world)) = 503"
proof -
  let ?dummy = "healthy\<lparr>cache_set := dummy_set, cache_get := dummy_get\<rparr>"
  have h: "connection_cursor ?dummy = Inr ()"
    "cursor_execute ?dummy ''SELECT 1'' [] = Inr ()"
    "cache_get ?dummy ''ready_check'' (cache_state fresh_world) = Inr PNone"
    "\<forall>k x t s. cache_set ?dummy k x t s = Inr s"
    "\<forall>k s. cache_get ?dummy k s = Inr PNone"
    by (simp_all add: double_defs)
  have n: "new_calls fresh_world (snd (readiness request_with_id ?dummy fresh_world))
       = [ConnectionCursor, CursorExecute ''SELECT 1'' [], CacheGet ''ready_check'']"
    unfolding readiness_new_calls by (simp add: double_defs)
  have c: "is_cache_call (CacheGet ''ready_check'')" by simp
  note t = readiness_reads_without_writing [of request_with_id ?dummy fresh_world PNone]
  show ?thesis using h n c t by blast
qed

section \<open>The cache check of the health endpoint\<close>

lemma calls_db_status:
  "calls (snd (db_status d w)) =
     calls w @ ConnectionCursor #
       (case connection_cursor d of
          Inl _ \<Rightarrow> []
        | Inr _ \<Rightarrow>
            CursorExecute ''SELECT 1'' [] #
              (case cursor_execute d ''SELECT 1'' [] of
                 Inl _ \<Rightarrow> []
               | Inr _ \<Rightarrow> [CursorFetchone]))"
  by (simp add: db_status_def record_call_def Let_def split: sum.splits)

lemma calls_redis_status:
  "calls (snd (redis_status d w)) =
     calls w @ CacheSet ''health_check'' (PStr ''ok'') 10 #
       (case cache_set d ''health_check'' (PStr ''ok'') 10 (cache_state w) of
          Inl _ \<Rightarrow> []
        | Inr _ \<Rightarrow> [CacheGet ''health_check''])"
  by (simp add: redis_status_def record_call_def Let_def split: sum.splits)

lemma calls_disk_status:
  "calls (snd (snd (disk_status d w))) =
     calls w @ (if PSUTIL_AVAILABLE d then [DiskUsage ''/''] else [])"
  by (simp add: disk_status_def record_call_def Let_def split: sum.splits)

lemma calls_memory_status:
  "calls (snd (snd (memory_status d w))) =
     calls w @ (if PSUTIL_AVAILABLE d then [VirtualMemory] else [])"
  by (simp add: memory_status_def record_call_def Let_def split: sum.splits)

lemma calls_system_metrics:
  "calls (snd (system_metrics d memory disk_usage w)) =
     calls w @ (if PSUTIL_AVAILABLE d then [CpuPercent 1] else [])"
  by (simp add: system_metrics_def record_call_def Let_def split: sum.splits)

lemma healthcheck_new_calls:
  "new_calls w (snd (healthcheck request d w)) =
     (ConnectionCursor #
       (case connection_cursor d of
          Inl _ \<Rightarrow> []
        | Inr _ \<Rightarrow>
            CursorExecute ''SELECT 1'' [] #
              (case cursor_execute d ''SELECT 1'' [] of
                 Inl _ \<Rightarrow> []
               | Inr _ \<Rightarrow> [CursorFetchone])))
     @ (CacheSet ''health_check'' (PStr ''ok'') 10 #
       (case cache_set d ''health_check'' (PStr ''ok'') 10 (cache_state w) of
          Inl _ \<Rightarrow> []
        | Inr _ \<Rightarrow> [CacheGet ''health_check'']))
     @ (if PSUTIL_AVAILABLE d then [DiskUsage ''/'', VirtualMemory, CpuPercent 1] else [])"
  by (simp add: healthcheck_def split_beta Let_def new_calls_def calls_system_metrics
      calls_memory_status calls_disk_status calls_redis_status calls_db_status
      cache_state_db_status)

text \<open>
  C9. The cache check of the health endpoint writes the key \<^verbatim>\<open>health_check\<close> with the
  value \<^verbatim>\<open>ok\<close> and a timeout of 10 seconds, then reads that key back (these are its only
  cache calls, in this order, the read only when the write returned). The check is
  reported \<^verbatim>\<open>ok\<close> exactly when the write returned and the read returned the string
  \<^verbatim>\<open>ok\<close>; in every other case it is reported as an error, and when the write or the
  read raises, the report carries the text of the exception and the handler still
  answers.
\<close>

theorem healthcheck_cache_round_trip:
  "(json_path (body (fst (healthcheck request d w))) [''checks'', ''redis''] = Some (JStr ''ok''))
     = (\<exists>s. cache_set d ''health_check'' (PStr ''ok'') 10 (cache_state w) = Inr s
            \<and> cache_get d ''health_check'' s = Inr (PStr ''ok''))
   \<and> (json_path (body (fst (healthcheck request d w))) [''checks'', ''redis'']
         \<noteq> Some (JStr ''ok'') \<longrightarrow>
       check_status (fst (healthcheck request d w)) ''redis'' = StatusError)
   \<and> filter is_cache_call (new_calls w (snd (healthcheck request d w))) =
       CacheSet ''health_check'' (PStr ''ok'') 10 #
         (case cache_set d ''health_check'' (PStr ''ok'') 10 (cache_state w) of
            Inl _ \<Rightarrow> []
          | Inr _ \<Rightarrow> [CacheGet ''health_check''])
   \<and> (cache_set d ''health_check'' (PStr ''ok'') 10 (cache_state w) = Inl e \<longrightarrow>
       json_path (body (fst (healthcheck request d w))) [''checks'', ''redis'']
         = Some (JStr (''error: '' @ e)))
   \<and> (cache_set d ''health_check'' (PStr ''ok'') 10 (cache_state w) = Inr s
        \<and> cache_get d ''health_check'' s = Inl e \<longrightarrow>
       json_path (body (fst (healthcheck request d w))) [''checks'', ''redis'']
         = Some (JStr (''error: '' @ e)))"
proof (intro conjI impI)
  show "(json_path (body (fst (healthcheck request d w))) [''checks'', ''redis''] = Some (JStr ''ok''))
     = (\<exists>s. cache_set d ''health_check'' (PStr ''ok'') 10 (cache_state w) = Inr s
            \<and> cache_get d ''health_check'' s = Inr (PStr ''ok''))"
    unfolding healthcheck_redis_check by (auto split: sum.splits)
  show "filter is_cache_call (new_calls w (snd (healthcheck request d w))) =
       CacheSet ''health_check'' (PStr ''ok'') 10 #
         (case cache_set d ''health_check'' (PStr ''ok'') 10 (cache_state w) of
            Inl _ \<Rightarrow> []
          | Inr _ \<Rightarrow> [CacheGet ''health_check''])"
    unfolding healthcheck_new_calls by (simp split: sum.splits)
next
  assume "json_path (body (fst (healthcheck request d w))) [''checks'', ''redis'']
         \<noteq> Some (JStr ''ok'')"
  then show "check_status (fst (healthcheck request d w)) ''redis'' = StatusError"
    unfolding check_status_def healthcheck_redis_check
    by (auto simp: status_of_def split: sum.splits if_splits)
next
  assume "cache_set d ''health_check'' (PStr ''ok'') 10 (cache_state w) = Inl e"
  then show "json_path (body (fst (healthcheck request d w))) [''checks'', ''redis'']
         = Some (JStr (''error: '' @ e))"
    unfolding healthcheck_redis_check by simp
next
  assume "cache_set d ''health_check'' (PStr ''ok'') 10 (cache_state w) = Inr s
        \<and> cache_get d ''health_check'' s = Inl e"
  then show "json_path (body (fst (healthcheck request d w))) [''checks'', ''redis'']
         = Some (JStr (''error: '' @ e))"
    unfolding healthcheck_redis_check by simp
qed

theorem healthcheck_cache_round_trip_witness:
  "json_path (body (fst (healthcheck request_with_id healthy fresh_world))) [''checks'', ''redis'']
     = Some (JStr ''ok'')
   \<and> json_path (body (fst (healthcheck request_with_id
        (healthy\<lparr>cache_set := dummy_set, cache_get := dummy_get\<rparr>) fresh_world)))
        [''checks'', ''redis''] \<noteq> Some (JStr ''ok'')
   \<and> check_status (fst (healthcheck request_with_id
        (healthy\<lparr>cache_set := dummy_set, cache_get := dummy_get\<rparr>) fresh_world)) ''redis''
       = StatusError
   \<and> cache_set (healthy\<lparr>cache_set := (\<lambda>k x t s. Inl ''connection refused'')\<rparr>)
        ''health_check'' (PStr ''ok'') 10 (cache_state fresh_world) = Inl ''connection refused''
   \<and> json_path (body (fst (healthcheck request_with_id
        (healthy\<lparr>cache_set := (\<lambda>k x t s. Inl ''connection refused'')\<rparr>) fresh_world)))
        [''checks'', ''redis''] = Some (JStr ''error: connection refused'')
   \<and> cache_set (healthy\<lparr>cache_get := (\<lambda>k s. Inl ''timed out'')\<rparr>)
        ''health_check'' (PStr ''ok'') 10 (cache_state fresh_world)
       = Inr [''health_check'' \<mapsto> PStr ''ok'']
   \<and> cache_get (healthy\<lparr>cache_get := (\<lambda>k s. Inl ''timed out'')\<rparr>)
        ''health_check'' [''health_check'' \<mapsto> PStr ''ok''] = Inl ''timed out''
   \<and> json_path (body (fst (healthcheck request_with_id
        (healthy\<lparr>cache_get := (\<lambda>k s. Inl ''timed out'')\<rparr>) fresh_world)))
        [''checks'', ''redis''] = Some (JStr ''error: timed out'')"
proof -
  let ?dummy = "healthy\<lparr>cache_set := dummy_set, cache_get := dummy_get\<rparr>"
  let ?noset = "healthy\<lparr>cache_set := (\<lambda>k x t s. Inl ''connection refused'')\<rparr>"
  let ?noget = "healthy\<lparr>cache_get := (\<lambda>k s. Inl ''timed out'')\<rparr>"
  have ok: "\<exists>s. cache_set healthy ''health_check'' (PStr ''ok'') 10 (cache_state fresh_world) = Inr s
            \<and> cache_get healthy ''health_check'' s = Inr (PStr ''ok'')"
    by (simp add: double_defs)
  have bad: "\<not> (\<exists>s. cache_set ?dummy ''health_check'' (PStr ''ok'') 10 (cache_state fresh_world) = Inr s
            \<and> cache_get ?dummy ''health_check'' s = Inr (PStr ''ok''))"
    by (simp add: double_defs)
  have h1: "cache_set ?noset ''health_check'' (PStr ''ok'') 10 (cache_state fresh_world)
      = Inl ''connection refused''"
    by simp
  have h2: "cache_set ?noget ''health_check'' (PStr ''ok'') 10 (cache_state fresh_world)
       = Inr [''health_check'' \<mapsto> PStr ''ok'']"
    by (simp add: double_defs)
  have h3: "cache_get ?noget ''health_check'' [''health_check'' \<mapsto> PStr ''ok''] = Inl ''timed out''"
    by simp
  note a = healthcheck_cache_round_trip [of request_with_id healthy fresh_world]
  note b = healthcheck_cache_round_trip [of request_with_id ?dummy fresh_world]
  note c = healthcheck_cache_round_trip
    [of request_with_id ?noset fresh_world "''connection refused''"]
  note e = healthcheck_cache_round_trip
    [of request_with_id ?noget fresh_world "''timed out''" "[''health_check'' \<mapsto> PStr ''ok'']"]
  have r1: "json_path (body (fst (healthcheck request_with_id healthy fresh_world)))
      [''checks'', ''redis''] = Some (JStr ''ok'')"
    using a ok by blast
  have r2: "json_path (body (fst (healthcheck request_with_id ?dummy fresh_world)))
      [''checks'', ''redis''] \<noteq> Some (JStr ''ok'')"
    using b bad by blast
  have r3: "check_status (fst (healthcheck request_with_id ?dummy fresh_world)) ''redis''
       = StatusError"
    using b r2 by blast
  have r4: "json_path (body (fst (healthcheck request_with_id ?noset fresh_world)))
        [''checks'', ''redis''] = Some (JStr (''error: '' @ ''connection refused''))"
    using c h1 by blast
  have r5: "json_path (body (fst (healthcheck request_with_id ?noget fresh_world)))
        [''checks'', ''redis''] = Some (JStr (''error: '' @ ''timed out''))"
    using e h2 h3 by blast
  show ?thesis using r1 r2 r3 r4 r5 h1 h2 h3 by simp
qed

section \<open>Metrics\<close>

lemma fst_sample_system:
  "fst (sample_system d w) =
     (if PSUTIL_AVAILABLE d then
        (case psutil_cpu_percent d (1 / 10) of
           Inl e \<Rightarrow> Inl e
         | Inr c \<Rightarrow>
             (case psutil_virtual_memory d of
                Inl e \<Rightarrow> Inl e
              | Inr m \<Rightarrow>
                  (case psutil_disk_usage d ''/'' of
                     Inl e \<Rightarrow> Inl e
                   | Inr k \<Rightarrow> Inr (Some c, Some m, Some k))))
      else Inr (None, None, None))"
  by (simp add: sample_system_def Let_def split: sum.splits)

lemma fst_fetch_db_stats:
  "fst (fetch_db_stats d w) =
     (case connection_cursor d of
        Inl e \<Rightarrow> Inl e
      | Inr _ \<Rightarrow>
          (case cursor_execute d pg_stat_activity_query [DATABASE_NAME d] of
             Inl e \<Rightarrow> Inl e
           | Inr _ \<Rightarrow> cursor_fetchone d pg_stat_activity_query))"
  by (simp add: fetch_db_stats_def Let_def split: sum.splits)

lemma fst_fetch_redis_info:
  "fst (fetch_redis_info d w) =
     (case get_redis_connection d ''default'' of
        Inl _ \<Rightarrow> Map.empty
      | Inr _ \<Rightarrow> (case redis_info d of Inl _ \<Rightarrow> Map.empty | Inr info \<Rightarrow> info))"
  by (simp add: fetch_redis_info_def Let_def split: sum.splits)


lemma metrics_response:
  "fst (metrics request d w) =
     (case fst (sample_system d w) of
        Inl e \<Rightarrow> JsonResponse [(''error'', JStr e),
                                (''timestamp'', JStr (request_id request))] (Some 500)
      | Inr (cpu_percent, memory, disk) \<Rightarrow>
          (case fst (fetch_db_stats d w) of
             Inl e \<Rightarrow> JsonResponse [(''error'', JStr e),
                                     (''timestamp'', JStr (request_id request))] (Some 500)
           | Inr db_stats \<Rightarrow>
               (case database_counters db_stats of
                  Inl e \<Rightarrow> JsonResponse [(''error'', JStr e),
                                          (''timestamp'', JStr (request_id request))] (Some 500)
                | Inr database \<Rightarrow>
                    (case system_section d cpu_percent memory disk of
                       Inl e \<Rightarrow> JsonResponse [(''error'', JStr e),
                                               (''timestamp'', JStr (request_id request))]
                                  (Some 500)
                     | Inr system \<Rightarrow>
                         JsonResponse
                           [(''metrics'', JObj [(''system'', JObj system),
                                                (''database'', JObj database),
                                                (''redis'', JObj (redis_counters
                                                   (fst (fetch_redis_info d w))))]),
                            (''timestamp'', JStr (request_id request))] None))))"
proof -
  obtain a w1 where s: "sample_system d w = (a, w1)" by (cases "sample_system d w")
  obtain b w2 where f: "fetch_db_stats d w1 = (b, w2)" by (cases "fetch_db_stats d w1")
  obtain i w3 where r: "fetch_redis_info d w2 = (i, w3)" by (cases "fetch_redis_info d w2")
  have a: "fst (sample_system d w) = a" by (simp add: s)
  have b: "fst (fetch_db_stats d w) = b"
    using f fst_fetch_db_stats [of d w] fst_fetch_db_stats [of d w1] by simp
  have i: "fst (fetch_redis_info d w) = i"
    using r fst_fetch_redis_info [of d w] fst_fetch_redis_info [of d w2] by simp
  show ?thesis
    unfolding a b i
    by (simp add: metrics_def metrics_try_def s f r split: sum.splits prod.splits)
qed




section \<open>System metrics\<close>

lemma json_path_under:
  "json_path j [k] = Some j' \<Longrightarrow> json_path j (k # ks) = json_path j' ks"
  by (simp split: option.splits)

lemma healthcheck_system:
  "json_path (body (fst (healthcheck request d w))) [''system''] =
     Some (JObj
       (if PSUTIL_AVAILABLE d then
          (case psutil_cpu_percent d 1 of
             Inl e \<Rightarrow> [(''error'', JStr e)]
           | Inr cpu \<Rightarrow>
               [(''cpu_percent'', JFloat cpu),
                (''memory_percent'',
                   case psutil_virtual_memory d of
                     Inl _ \<Rightarrow> JInt 0 | Inr m \<Rightarrow> JFloat (mem_percent m)),
                (''disk_percent'',
                   case psutil_disk_usage d ''/'' of
                     Inl _ \<Rightarrow> JInt 0 | Inr u \<Rightarrow> JFloat (disk_percent u))])
        else []))"
  by (simp add: body_def json_member_def healthcheck_content Let_def fst_system_metrics
      local_memory local_disk_usage split: sum.splits)

text \<open>
  C7, as stated, has an unmeasured value marked absent, never reported as zero. In the
  health endpoint a memory probe that raised leaves the local \<^verbatim>\<open>memory\<close> unassigned and
  \<^verbatim>\<open>memory_percent\<close> is then written as the number 0.
\<close>

theorem healthcheck_unmeasured_memory_reported_zero:
  "json_path (body (fst (healthcheck request_with_id
       (healthy\<lparr>psutil_virtual_memory := Inl ''permission denied''\<rparr>) fresh_world)))
       [''checks'', ''memory''] = Some (JStr ''error: permission denied'')
   \<and> json_path (body (fst (healthcheck request_with_id
       (healthy\<lparr>psutil_virtual_memory := Inl ''permission denied''\<rparr>) fresh_world)))
       [''system'', ''memory_percent''] = Some (JInt 0)"
proof -
  let ?d = "healthy\<lparr>psutil_virtual_memory := Inl ''permission denied''\<rparr>"
  have c: "json_path (body (fst (healthcheck request_with_id ?d fresh_world)))
       [''checks'', ''memory''] = Some (JStr ''error: permission denied'')"
    unfolding healthcheck_checks fst_memory_status by (simp add: healthy_def)
  have s: "json_path (body (fst (healthcheck request_with_id ?d fresh_world))) [''system''] =
      Some (JObj [(''cpu_percent'', JFloat 5), (''memory_percent'', JInt 0),
                  (''disk_percent'', JFloat 40)])"
    unfolding healthcheck_system by (simp add: healthy_def)
  have "json_path (body (fst (healthcheck request_with_id ?d fresh_world)))
       [''system'', ''memory_percent''] = Some (JInt 0)"
    unfolding json_path_under [OF s] by (simp add: json_member_def)
  with c show ?thesis by blast
qed

text \<open>
  C7, amended. In the metrics endpoint a member of the \<^verbatim>\<open>system\<close> object is either the
  note that psutil is not available, or one of the five numeric metrics with its measured
  value, psutil being available and all three probes having returned. In the health
  endpoint the \<^verbatim>\<open>system\<close> object is empty without psutil and holds only the text of the
  exception when the cpu probe raises; when the cpu probe returns, \<^verbatim>\<open>cpu_percent\<close> is
  the measured value, and \<^verbatim>\<open>memory_percent\<close> and \<^verbatim>\<open>disk_percent\<close> are the measured
  values where the probe returned and the integer 0 where it raised.
\<close>

theorem system_metrics_presence:
  "(json_path (body (fst (metrics request d w))) [''metrics'', ''system'', k] = Some v \<longrightarrow>
      \<not> PSUTIL_AVAILABLE d \<and> k = ''error'' \<and> v = JStr ''psutil not available''
      \<or> PSUTIL_AVAILABLE d
         \<and> (\<exists>c m u. psutil_cpu_percent d (1 / 10) = Inr c \<and> psutil_virtual_memory d = Inr m
              \<and> psutil_disk_usage d ''/'' = Inr u
              \<and> map_of
                   [(''cpu_usage_percent'', JFloat c),
                    (''memory_usage_percent'', JFloat (mem_percent m)),
                    (''memory_available_gb'',
                       JFloat (py_round (of_int (mem_available m) / (1024 ^ 3)) 2)),
                    (''disk_usage_percent'', JFloat (disk_percent u)),
                    (''disk_free_gb'', JFloat (py_round (of_int (disk_free u) / (1024 ^ 3)) 2))]
                   k = Some v))
   \<and> (\<not> PSUTIL_AVAILABLE d \<longrightarrow>
        json_path (body (fst (healthcheck request d w))) [''system''] = Some (JObj []))
   \<and> (PSUTIL_AVAILABLE d \<and> psutil_cpu_percent d 1 = Inl e \<longrightarrow>
        json_path (body (fst (healthcheck request d w))) [''system''] =
          Some (JObj [(''error'', JStr e)]))
   \<and> (PSUTIL_AVAILABLE d \<and> psutil_cpu_percent d 1 = Inr cpu \<longrightarrow>
        json_path (body (fst (healthcheck request d w))) [''system''] =
          Some (JObj
            [(''cpu_percent'', JFloat cpu),
             (''memory_percent'',
                case psutil_virtual_memory d of
                  Inl _ \<Rightarrow> JInt 0 | Inr m \<Rightarrow> JFloat (mem_percent m)),
             (''disk_percent'',
                case psutil_disk_usage d ''/'' of
                  Inl _ \<Rightarrow> JInt 0 | Inr u \<Rightarrow> JFloat (disk_percent u))]))"
proof (intro conjI impI)
  assume p: "json_path (body (fst (metrics request d w))) [''metrics'', ''system'', k] = Some v"
  show "\<not> PSUTIL_AVAILABLE d \<and> k = ''error'' \<and> v = JStr ''psutil not available''
      \<or> PSUTIL_AVAILABLE d
         \<and> (\<exists>c m u. psutil_cpu_percent d (1 / 10) = Inr c \<and> psutil_virtual_memory d = Inr m
              \<and> psutil_disk_usage d ''/'' = Inr u
              \<and> map_of
                   [(''cpu_usage_percent'', JFloat c),
                    (''memory_usage_percent'', JFloat (mem_percent m)),
                    (''memory_available_gb'',
                       JFloat (py_round (of_int (mem_available m) / (1024 ^ 3)) 2)),
                    (''disk_usage_percent'', JFloat (disk_percent u)),
                    (''disk_free_gb'', JFloat (py_round (of_int (disk_free u) / (1024 ^ 3)) 2))]
                   k = Some v)"
  proof (cases "PSUTIL_AVAILABLE d")
    case False
    then have s: "fst (sample_system d w) = Inr (None, None, None)"
      and sec: "system_section d None None None = Inr [(''error'', JStr ''psutil not available'')]"
      by (simp_all add: fst_sample_system system_section_def)
    from p have "k = ''error'' \<and> v = JStr ''psutil not available''"
      unfolding metrics_response s
      by (auto simp: sec JsonResponse_def body_def json_member_def
          split: sum.splits if_splits)
    with False show ?thesis by blast
  next
    case True
    from p obtain c m u where s: "fst (sample_system d w) = Inr (c, m, u)"
      unfolding metrics_response
      by (cases "fst (sample_system d w)")
         (auto simp: JsonResponse_def body_def json_member_def)
    with True obtain c' m' u' where
      probes: "psutil_cpu_percent d (1 / 10) = Inr c'" "psutil_virtual_memory d = Inr m'"
        "psutil_disk_usage d ''/'' = Inr u'"
      and eq: "c = Some c'" "m = Some m'" "u = Some u'"
      by (auto simp: fst_sample_system split: sum.splits)
    have sec: "system_section d (Some c') (Some m') (Some u') =
        Inr [(''cpu_usage_percent'', JFloat c'),
             (''memory_usage_percent'', JFloat (mem_percent m')),
             (''memory_available_gb'',
                JFloat (py_round (of_int (mem_available m') / (1024 ^ 3)) 2)),
             (''disk_usage_percent'', JFloat (disk_percent u')),
             (''disk_free_gb'', JFloat (py_round (of_int (disk_free u') / (1024 ^ 3)) 2))]"
      using True by (simp add: system_section_def)
    from p have "map_of
        [(''cpu_usage_percent'', JFloat c'),
         (''memory_usage_percent'', JFloat (mem_percent m')),
         (''memory_available_gb'',
            JFloat (py_round (of_int (mem_available m') / (1024 ^ 3)) 2)),
         (''disk_usage_percent'', JFloat (disk_percent u')),
         (''disk_free_gb'', JFloat (py_round (of_int (disk_free u') / (1024 ^ 3)) 2))]
        k = Some v"
      unfolding metrics_response s eq
      by (simp add: sec JsonResponse_def body_def json_member_def
          split: sum.splits if_splits)
    with True probes show ?thesis by blast
  qed
next
  assume "\<not> PSUTIL_AVAILABLE d"
  then show "json_path (body (fst (healthcheck request d w))) [''system''] = Some (JObj [])"
    unfolding healthcheck_system by simp
next
  assume "PSUTIL_AVAILABLE d \<and> psutil_cpu_percent d 1 = Inl e"
  then show "json_path (body (fst (healthcheck request d w))) [''system''] =
          Some (JObj [(''error'', JStr e)])"
    unfolding healthcheck_system by simp
next
  assume "PSUTIL_AVAILABLE d \<and> psutil_cpu_percent d 1 = Inr cpu"
  then show "json_path (body (fst (healthcheck request d w))) [''system''] =
          Some (JObj
            [(''cpu_percent'', JFloat cpu),
             (''memory_percent'',
                case psutil_virtual_memory d of
                  Inl _ \<Rightarrow> JInt 0 | Inr m \<Rightarrow> JFloat (mem_percent m)),
             (''disk_percent'',
                case psutil_disk_usage d ''/'' of
                  Inl _ \<Rightarrow> JInt 0 | Inr u \<Rightarrow> JFloat (disk_percent u))])"
    unfolding healthcheck_system by simp
qed

theorem system_metrics_presence_witness:
  "json_path (body (fst (metrics request_with_id healthy fresh_world)))
       [''metrics'', ''system'', ''cpu_usage_percent''] = Some (JFloat 5)
   \<and> PSUTIL_AVAILABLE healthy
   \<and> psutil_cpu_percent healthy (1 / 10) = Inr 5
   \<and> \<not> PSUTIL_AVAILABLE (healthy\<lparr>PSUTIL_AVAILABLE := False\<rparr>)
   \<and> json_path (body (fst (healthcheck request_with_id
        (healthy\<lparr>PSUTIL_AVAILABLE := False\<rparr>) fresh_world))) [''system''] = Some (JObj [])
   \<and> psutil_cpu_percent (healthy\<lparr>psutil_cpu_percent := (\<lambda>_. Inl ''no counters'')\<rparr>) 1
        = Inl ''no counters''
   \<and> json_path (body (fst (healthcheck request_with_id
        (healthy\<lparr>psutil_cpu_percent := (\<lambda>_. Inl ''no counters'')\<rparr>) fresh_world))) [''system'']
        = Some (JObj [(''error'', JStr ''no counters'')])
   \<and> psutil_cpu_percent healthy 1 = Inr 5
   \<and> json_path (body (fst (healthcheck request_with_id healthy fresh_world))) [''system'']
        = Some (JObj [(''cpu_percent'', JFloat 5), (''memory_percent'', JFloat 50),
                      (''disk_percent'', JFloat 40)])"
proof -
  let ?absent = "healthy\<lparr>PSUTIL_AVAILABLE := False\<rparr>"
  let ?nocpu = "healthy\<lparr>psutil_cpu_percent := (\<lambda>_. Inl ''no counters'')\<rparr>"
  have p: "json_path (body (fst (metrics request_with_id healthy fresh_world)))
       [''metrics'', ''system'', ''cpu_usage_percent''] = Some (JFloat 5)"
    unfolding metrics_response fst_sample_system fst_fetch_db_stats
    by (simp add: healthy_def system_section_def database_counters_def py_index_def
        JsonResponse_def body_def json_member_def)
  have h1: "PSUTIL_AVAILABLE healthy" by (simp add: healthy_def)
  have h2: "\<not> PSUTIL_AVAILABLE ?absent" by simp
  have h3: "PSUTIL_AVAILABLE ?nocpu \<and> psutil_cpu_percent ?nocpu 1 = Inl ''no counters''"
    by (simp add: healthy_def)
  have h4: "PSUTIL_AVAILABLE healthy \<and> psutil_cpu_percent healthy 1 = Inr 5"
    by (simp add: healthy_def)
  have vm: "psutil_virtual_memory healthy = Inr \<lparr>mem_percent = 50, mem_available = 4294967296\<rparr>"
    and du: "psutil_disk_usage healthy ''/'' = Inr \<lparr>disk_percent = 40, disk_free = 8589934592\<rparr>"
    by (simp_all add: healthy_def)
  note a = system_metrics_presence
    [of request_with_id healthy fresh_world "''cpu_usage_percent''" "JFloat 5" _ 5]
  note b = system_metrics_presence [of request_with_id ?absent fresh_world]
  note c = system_metrics_presence [of request_with_id ?nocpu fresh_world _ _ "''no counters''"]
  have r1: "psutil_cpu_percent healthy (1 / 10) = Inr 5"
    using a p h1 by auto
  have r2: "json_path (body (fst (healthcheck request_with_id ?absent fresh_world))) [''system'']
      = Some (JObj [])"
    using b h2 by blast
  have r3: "json_path (body (fst (healthcheck request_with_id ?nocpu fresh_world))) [''system'']
      = Some (JObj [(''error'', JStr ''no counters'')])"
    using c h3 by blast
  have r4: "json_path (body (fst (healthcheck request_with_id healthy fresh_world))) [''system'']
      = Some (JObj [(''cpu_percent'', JFloat 5), (''memory_percent'', JFloat 50),
                    (''disk_percent'', JFloat 40)])"
    using a h4 by (simp add: vm du)
  show ?thesis using p h1 r1 h2 r2 h3 r3 h4 r4 by blast
qed

end
